theory Spec2Isabelle
  imports Complex_Main "HOL-Library.Word"
begin

section \<open>Machine types\<close>

text \<open>
  The firmware targets the ESP32, where \<^verbatim>\<open>unsigned long\<close> and \<^verbatim>\<open>uint32_t\<close> are both
  32 bits wide: clock values and step counters are 32-bit words, whose addition and
  subtraction wrap around. Analog readings are C \<^verbatim>\<open>int\<close>s that are only compared with
  small constants; they are modelled as integers.
\<close>

type_synonym u32 = "32 word"

section \<open>Floating-point values\<close>

text \<open>
  A finite \<^verbatim>\<open>float\<close> or \<^verbatim>\<open>double\<close> is modelled as the real number it denotes. Where
  the program produces such a value by rounding (a decimal constant, the constant
  arithmetic of the offset table, a single-precision subtraction, the narrowing of a
  \<^verbatim>\<open>double\<close> to a \<^verbatim>\<open>float\<close>), the rounding is written out: to the nearest value with
  \<open>p\<close> significant bits and exponent at least \<open>emin\<close>, ties to the even neighbour, as
  IEEE 754 prescribes. Infinities and overflow are not modelled.
\<close>

definition pow2 :: "int \<Rightarrow> real" where
  "pow2 k = (if 0 \<le> k then 2 ^ nat k else 1 / 2 ^ nat (- k))"

definition roundTiesEven :: "real \<Rightarrow> int" where
  "roundTiesEven x =
     (let n = \<lfloor>x\<rfloor>; r = x - of_int n in
      if r < 1 / 2 then n
      else if 1 / 2 < r then n + 1
      else if even n then n else n + 1)"

definition binaryExponent :: "real \<Rightarrow> int" where
  "binaryExponent x = \<lfloor>log 2 \<bar>x\<bar>\<rfloor>"

definition roundBinary :: "nat \<Rightarrow> int \<Rightarrow> real \<Rightarrow> real" where
  "roundBinary p emin x =
     (if x = 0 then 0
      else (let e = max (binaryExponent x) emin; q = pow2 (e - int p + 1)
            in of_int (roundTiesEven (x / q)) * q))"

text \<open>Single precision: 24 significant bits; double precision: 53.\<close>

definition toFloat :: "real \<Rightarrow> real" where
  "toFloat = roundBinary 24 (- 126)"

definition toDouble :: "real \<Rightarrow> real" where
  "toDouble = roundBinary 53 (- 1022)"

text \<open>
  The arithmetic of constant expressions of type \<^verbatim>\<open>double\<close>, and the subtraction of
  two \<^verbatim>\<open>float\<close> values, each rounding its exact result once.
\<close>

definition doubleAdd :: "real \<Rightarrow> real \<Rightarrow> real" where
  "doubleAdd a b = toDouble (a + b)"

definition doubleSub :: "real \<Rightarrow> real \<Rightarrow> real" where
  "doubleSub a b = toDouble (a - b)"

definition floatSub :: "real \<Rightarrow> real \<Rightarrow> real" where
  "floatSub a b = toFloat (a - b)"

section \<open>Step detection\<close>

record StepData =
  totalSteps :: u32
  normal_L_steps :: u32
  normal_R_steps :: u32
  strong_L_steps :: u32
  strong_R_steps :: u32
  lastLeftStep :: u32
  lastRightStep :: u32

text \<open>The global \<^verbatim>\<open>StepData stepData = {0,0,0,0,0,0,0}\<close>.\<close>

definition stepData_init :: StepData where
  "stepData_init =
     \<lparr>totalSteps = 0, normal_L_steps = 0, normal_R_steps = 0, strong_L_steps = 0,
      strong_R_steps = 0, lastLeftStep = 0, lastRightStep = 0\<rparr>"

definition DEBOUNCE_TIME :: u32 where
  "DEBOUNCE_TIME = 200"

text \<open>
  The two blocks of \<^verbatim>\<open>readPiezoSensors\<close>. The clock value and the two analog readings
  are what \<^verbatim>\<open>millis()\<close> and \<^verbatim>\<open>analogRead\<close> return during the call.
\<close>

definition leftFootDetection :: "u32 \<Rightarrow> int \<Rightarrow> StepData \<Rightarrow> StepData" where
  "leftFootDetection currentMillis leftValue s =
     (if leftValue > 600 \<and> currentMillis - lastLeftStep s > DEBOUNCE_TIME
      then (if leftValue < 700
            then s\<lparr>normal_L_steps := normal_L_steps s + 1\<rparr>
            else s\<lparr>strong_L_steps := strong_L_steps s + 1\<rparr>)
           \<lparr>totalSteps := totalSteps s + 1, lastLeftStep := currentMillis\<rparr>
      else s)"

definition rightFootDetection :: "u32 \<Rightarrow> int \<Rightarrow> StepData \<Rightarrow> StepData" where
  "rightFootDetection currentMillis rightValue s =
     (if rightValue > 80 \<and> currentMillis - lastRightStep s > DEBOUNCE_TIME
      then (if rightValue < 120
            then s\<lparr>normal_R_steps := normal_R_steps s + 1\<rparr>
            else s\<lparr>strong_R_steps := strong_R_steps s + 1\<rparr>)
           \<lparr>totalSteps := totalSteps s + 1, lastRightStep := currentMillis\<rparr>
      else s)"

definition readPiezoSensors :: "u32 \<Rightarrow> int \<Rightarrow> int \<Rightarrow> StepData \<Rightarrow> StepData" where
  "readPiezoSensors currentMillis leftValue rightValue s =
     rightFootDetection currentMillis rightValue
       (leftFootDetection currentMillis leftValue s)"

text \<open>One sampling of the two piezo channels: clock value, left reading, right reading.\<close>

type_synonym piezo_sample = "u32 \<times> int \<times> int"

fun readPiezoSeq :: "piezo_sample list \<Rightarrow> StepData \<Rightarrow> StepData" where
  "readPiezoSeq [] s = s"
| "readPiezoSeq ((t, l, r) # ps) s = readPiezoSeq ps (readPiezoSensors t l r s)"

text \<open>The sum of the four classified counters, in 32-bit arithmetic as the C expression.\<close>

definition classifiedSteps :: "StepData \<Rightarrow> u32" where
  "classifiedSteps s =
     normal_L_steps s + normal_R_steps s + strong_L_steps s + strong_R_steps s"

text \<open>Steps accepted so far on one channel, normal and strong together.\<close>

definition leftAccepted :: "StepData \<Rightarrow> u32" where
  "leftAccepted s = normal_L_steps s + strong_L_steps s"

definition rightAccepted :: "StepData \<Rightarrow> u32" where
  "rightAccepted s = normal_R_steps s + strong_R_steps s"

text \<open>
  Clock values of successive samplings that lie within one debounce interval: each
  later one follows each earlier one by at most \<open>DEBOUNCE_TIME\<close> (the difference taken
  as the program takes it, in 32-bit arithmetic).
\<close>

fun closeTimes :: "u32 list \<Rightarrow> bool" where
  "closeTimes [] = True"
| "closeTimes (t # ts) = ((\<forall>u\<in>set ts. u - t \<le> DEBOUNCE_TIME) \<and> closeTimes ts)"

section \<open>Position tracking\<close>

text \<open>
  Latitude, longitude and total distance are \<^verbatim>\<open>double\<close>s, the speed is a \<^verbatim>\<open>float\<close>. The
  comparisons of the program are exact on such values. The sum
  \<^verbatim>\<open>totalDistance += distance\<close> is taken without its final rounding.
\<close>

record GPSData =
  latitude :: real
  longitude :: real
  speed :: real
  totalDistance :: real

text \<open>The global \<^verbatim>\<open>GPSData gpsData = {0, 0, 0, 0}\<close>.\<close>

definition gpsData_init :: GPSData where
  "gpsData_init = \<lparr>latitude = 0, longitude = 0, speed = 0, totalDistance = 0\<rparr>"

definition GPS_DISTANCE_THRESHOLD :: real where
  "GPS_DISTANCE_THRESHOLD = 50"

text \<open>
  Modelled from the spec: the Arduino core macro \<^verbatim>\<open>DEG_TO_RAD\<close> is not part of the
  repository; the spec describes the distance as the great-circle distance between two
  positions given in degrees, so the macro is the factor from degrees to radians.
\<close>

definition DEG_TO_RAD :: real where
  "DEG_TO_RAD = pi / 180"

text \<open>
  \<^verbatim>\<open>calculateDistance\<close> in exact arithmetic: the formula of the source, with the real
  functions in place of the library's. The C library function \<^verbatim>\<open>atan2(y, x)\<close> first.
\<close>

definition atan2 :: "real \<Rightarrow> real \<Rightarrow> real" where
  "atan2 y x =
     (if 0 < x then arctan (y / x)
      else if x < 0 then (if 0 \<le> y then arctan (y / x) + pi else arctan (y / x) - pi)
      else if 0 < y then pi / 2
      else if y < 0 then - (pi / 2)
      else 0)"

definition calculateDistance :: "real \<Rightarrow> real \<Rightarrow> real \<Rightarrow> real \<Rightarrow> real" where
  "calculateDistance lat1 lon1 lat2 lon2 =
     (let R = 6371000;
          phi1 = lat1 * DEG_TO_RAD;
          phi2 = lat2 * DEG_TO_RAD;
          dphi = (lat2 - lat1) * DEG_TO_RAD;
          dlambda = (lon2 - lon1) * DEG_TO_RAD;
          a = sin (dphi / 2) * sin (dphi / 2)
              + cos phi1 * cos phi2 * sin (dlambda / 2) * sin (dlambda / 2);
          c = 2 * atan2 (sqrt a) (sqrt (1 - a))
      in R * c)"

text \<open>
  The processor evaluates the same formula in double precision, with the library's
  approximations of \<^verbatim>\<open>sin\<close>, \<^verbatim>\<open>cos\<close>, \<^verbatim>\<open>sqrt\<close> and \<^verbatim>\<open>atan2\<close>. Its result need not be
  the exact one, and it can be "not a number": for two positions on opposite sides of
  the globe the rounded \<open>a\<close> can exceed 1, so that \<^verbatim>\<open>sqrt(1-a)\<close> has no value. That
  evaluation is therefore a parameter of \<^verbatim>\<open>updateGPS\<close>: a function from the four
  coordinates to the number computed, \<open>None\<close> standing for "not a number".
  \<open>exactDistance\<close> is the evaluation that makes no rounding error.
\<close>

type_synonym distance_eval = "real \<Rightarrow> real \<Rightarrow> real \<Rightarrow> real \<Rightarrow> real option"

definition exactDistance :: distance_eval where
  "exactDistance lat1 lon1 lat2 lon2 = Some (calculateDistance lat1 lon1 lat2 lon2)"

text \<open>
  The sentence parser (TinyGPS++) is an external library. One \<open>GpsByte\<close> is what the
  parser shows after one byte has been fed to it: the result of \<^verbatim>\<open>gps.encode\<close> and the
  values of the accessors \<^verbatim>\<open>updateGPS\<close> calls.
\<close>

record GpsByte =
  encode :: bool
  location_isValid :: bool
  location_isUpdated :: bool
  location_lat :: real
  location_lng :: real
  speed_isValid :: bool
  speed_kmph :: real

text \<open>
  The body of the innermost \<^verbatim>\<open>if\<close> of \<^verbatim>\<open>updateGPS\<close>: one valid, updated fix. A
  comparison with "not a number" is false, so such a distance is never added.
\<close>

definition positionUpdate :: "distance_eval \<Rightarrow> GpsByte \<Rightarrow> GPSData \<Rightarrow> GPSData" where
  "positionUpdate calc b g =
     (let newLat = location_lat b; newLng = location_lng b in
      if latitude g \<noteq> 0 \<and> longitude g \<noteq> 0
      then (case calc (latitude g) (longitude g) newLat newLng of
              None \<Rightarrow> g
            | Some distance \<Rightarrow>
                if distance > GPS_DISTANCE_THRESHOLD \<and> speed_isValid b \<and> speed_kmph b > 2
                then g\<lparr>totalDistance := totalDistance g + distance,
                       latitude := newLat, longitude := newLng\<rparr>
                else g)
      else g\<lparr>latitude := newLat, longitude := newLng\<rparr>)"

text \<open>The \<^verbatim>\<open>double\<close> returned by \<^verbatim>\<open>kmph()\<close> is narrowed to the \<^verbatim>\<open>float\<close> field.\<close>

definition speedUpdate :: "GpsByte \<Rightarrow> GPSData \<Rightarrow> GPSData" where
  "speedUpdate b g =
     (if speed_isValid b then g\<lparr>speed := toFloat (speed_kmph b)\<rparr> else g)"

definition gpsByteStep :: "distance_eval \<Rightarrow> GpsByte \<Rightarrow> GPSData \<Rightarrow> GPSData" where
  "gpsByteStep calc b g =
     (if encode b
      then (if location_isValid b \<and> location_isUpdated b
            then speedUpdate b (positionUpdate calc b g)
            else g)
      else g)"

text \<open>The \<^verbatim>\<open>while (gpsSerial.available() > 0)\<close> loop: one step per byte waiting.\<close>

fun updateGPS :: "distance_eval \<Rightarrow> GpsByte list \<Rightarrow> GPSData \<Rightarrow> GPSData" where
  "updateGPS calc [] g = g"
| "updateGPS calc (b # bs) g = updateGPS calc bs (gpsByteStep calc b g)"

text \<open>A completed sentence that carries a valid, updated fix with a valid speed.\<close>

definition validFix :: "real \<Rightarrow> real \<Rightarrow> real \<Rightarrow> GpsByte" where
  "validFix lat lng kmph =
     \<lparr>encode = True, location_isValid = True, location_isUpdated = True,
      location_lat = lat, location_lng = lng, speed_isValid = True, speed_kmph = kmph\<rparr>"

section \<open>Inertial sensors\<close>

definition NUM_IMUS :: nat where
  "NUM_IMUS = 3"

text \<open>
  The table \<^verbatim>\<open>const float CALIBRATION_OFFSETS[NUM_IMUS][6]\<close>. Rows: right leg, left leg,
  chest; columns: AccX, AccY, AccZ, GyroX, GyroY, GyroZ. Each initialiser is a constant
  expression of type \<^verbatim>\<open>double\<close>: its decimal literals are rounded to doubles, its sums
  and differences are taken in double precision, and the result is narrowed to the
  \<^verbatim>\<open>float\<close> that the table holds.
\<close>

definition CALIBRATION_OFFSETS :: "real list list" where
  "CALIBRATION_OFFSETS =
     map (map toFloat)
       [[doubleSub (toDouble 0.12) (toDouble 1.2280),
         - toDouble 0.15,
         doubleAdd (- toDouble 0.81) (toDouble 0.0525),
         doubleSub (toDouble 0.005) (toDouble 0.0694),
         doubleAdd (- toDouble 0.002) (toDouble 0.0585),
         doubleSub (toDouble 0.003) (toDouble 0.0363)],
        [doubleSub (- toDouble 0.08) (toDouble 1.1284),
         toDouble 0.15,
         doubleSub (doubleAdd (- toDouble 0.76) (toDouble 1.4918)) 1,
         doubleSub (toDouble 0.002) (toDouble 0.0655),
         doubleSub (toDouble 0.004) (toDouble 0.0116),
         doubleSub (- toDouble 0.001) (toDouble 0.0273)],
        [toDouble 0.30,
         doubleSub (- toDouble 0.02) (toDouble 0.3162),
         doubleSub (doubleAdd (- toDouble 0.83) (toDouble 1.7669)) 1,
         doubleAdd (- toDouble 0.003) (toDouble 0.0201),
         doubleSub (toDouble 0.001) (toDouble 0.0122),
         doubleAdd (toDouble 0.002) (toDouble 0.0077)]]"

text \<open>The four \<^verbatim>\<open>float[3]\<close> arrays of one sensor, as lists of length three.\<close>

record SensorData =
  accel :: "real list"
  gyro :: "real list"
  calibratedAccel :: "real list"
  calibratedGyro :: "real list"

text \<open>The zero-initialised global \<^verbatim>\<open>SensorData imuData[NUM_IMUS]\<close>.\<close>

definition imuData_init :: "SensorData list" where
  "imuData_init =
     replicate NUM_IMUS
       \<lparr>accel = [0, 0, 0], gyro = [0, 0, 0],
        calibratedAccel = [0, 0, 0], calibratedGyro = [0, 0, 0]\<rparr>"

text \<open>What \<^verbatim>\<open>getEvent\<close> delivers on success; \<open>None\<close> stands for a failed read.\<close>

record ImuEvent =
  acceleration_x :: real
  acceleration_y :: real
  acceleration_z :: real
  gyro_x :: real
  gyro_y :: real
  gyro_z :: real

definition storeRaw :: "ImuEvent \<Rightarrow> SensorData \<Rightarrow> SensorData" where
  "storeRaw e d =
     d\<lparr>accel := (accel d)[0 := acceleration_x e, 1 := acceleration_y e, 2 := acceleration_z e],
       gyro := (gyro d)[0 := gyro_x e, 1 := gyro_y e, 2 := gyro_z e]\<rparr>"

text \<open>
  One pass of the inner loop \<^verbatim>\<open>for (int j = 0; j < 3; j++)\<close> for sensor \<open>i\<close>. Both
  operands of each subtraction are \<^verbatim>\<open>float\<close>s, and so is its result.
\<close>

definition calibrateAxis :: "nat \<Rightarrow> nat \<Rightarrow> SensorData \<Rightarrow> SensorData" where
  "calibrateAxis i j d =
     (let d1 = d\<lparr>calibratedAccel :=
                  (calibratedAccel d)[j := floatSub (accel d ! j) (CALIBRATION_OFFSETS ! i ! j)]\<rparr>
      in d1\<lparr>calibratedGyro :=
              (calibratedGyro d1)
                [j := floatSub (gyro d1 ! j) (CALIBRATION_OFFSETS ! i ! (j + 3))]\<rparr>)"

definition applyCalibration :: "nat \<Rightarrow> SensorData \<Rightarrow> SensorData" where
  "applyCalibration i d = fold (calibrateAxis i) [0..<3] d"

text \<open>One pass of the outer loop: a failed read skips the sensor (\<^verbatim>\<open>continue\<close>).\<close>

definition readIMU :: "nat \<Rightarrow> ImuEvent option \<Rightarrow> SensorData list \<Rightarrow> SensorData list" where
  "readIMU i ev imuData =
     (case ev of
        None \<Rightarrow> imuData
      | Some e \<Rightarrow> imuData[i := applyCalibration i (storeRaw e (imuData ! i))])"

definition readAllIMUs :: "(nat \<Rightarrow> ImuEvent option) \<Rightarrow> SensorData list \<Rightarrow> SensorData list" where
  "readAllIMUs getEvent imuData =
     fold (\<lambda>i. readIMU i (getEvent i)) [0..<NUM_IMUS] imuData"

text \<open>The storage the arrays occupy: three sensors, three axes each.\<close>

definition sensor_wf :: "SensorData \<Rightarrow> bool" where
  "sensor_wf d =
     (length (accel d) = 3 \<and> length (gyro d) = 3 \<and>
      length (calibratedAccel d) = 3 \<and> length (calibratedGyro d) = 3)"


section \<open>Recorder, display and debug output\<close>

text \<open>
  Formatted output is kept as structured values: a line of the CSV file is either the
  header text or a data row with its columns in the order they are printed (timestamp,
  eighteen inertial columns, four position columns, five step columns); the number of
  decimals printed is not modelled.
\<close>

datatype csv_line = Header string | Row u32 "real list" "real list" "u32 list"

datatype serial_line =
  Message string
| DataDump "real list" "real list" "u32 list"

datatype dist_text = Metres real | Kilometres real

record Frame =
  hours :: "8 word"
  mins :: "8 word"
  secs :: "8 word"
  shownSpeed :: real
  shownDist :: dist_text
  shownSteps :: u32

datatype Task = GpsTask | ImuTask | PiezoTask | LogTask | DisplayTask

text \<open>
  The global variables of the sketch, the contents of the devices it writes to, and
  \<open>tasksRun\<close>, which is not a variable of the program: it records, in order, the task
  branches that \<^verbatim>\<open>loop\<close> has entered, so that scheduling can be observed.
\<close>

record System =
  imuData :: "SensorData list"
  gpsData :: GPSData
  stepData :: StepData
  lastGpsUpdate :: u32
  lastSensorUpdate :: u32
  lastPiezoUpdate :: u32
  lastLogTime :: u32
  lastDisplayUpdate :: u32
  headerWritten :: bool
  sdFile :: "csv_line list"
  serialOut :: "serial_line list"
  oled :: "Frame option"
  tasksRun :: "Task list"

text \<open>
  The state when \<^verbatim>\<open>loop\<close> is first entered: every global has its initialiser; \<open>old\<close> is
  what the file on the card holds from earlier runs.
\<close>

definition powerOn :: "csv_line list \<Rightarrow> System" where
  "powerOn old =
     \<lparr>imuData = imuData_init, gpsData = gpsData_init, stepData = stepData_init,
      lastGpsUpdate = 0, lastSensorUpdate = 0, lastPiezoUpdate = 0, lastLogTime = 0,
      lastDisplayUpdate = 0, headerWritten = False, sdFile = old, serialOut = [],
      oled = None, tasksRun = []\<rparr>"

definition csvHeader :: string where
  "csvHeader =
     ''timestamp,RL_AX,RL_AY,RL_AZ,RL_GX,RL_GY,RL_GZ,'' @
     ''LL_AX,LL_AY,LL_AZ,LL_GX,LL_GY,LL_GZ,'' @
     ''CH_AX,CH_AY,CH_AZ,CH_GX,CH_GY,CH_GZ,'' @
     ''latitude,longitude,speed_kmh,total_distance,'' @
     ''total_steps,normal_R,normal_L,strong_R,strong_L''"

definition imuColumns :: "SensorData list \<Rightarrow> real list" where
  "imuColumns ds =
     concat (map (\<lambda>i. [calibratedAccel (ds ! i) ! 0, calibratedAccel (ds ! i) ! 1,
                        calibratedAccel (ds ! i) ! 2, calibratedGyro (ds ! i) ! 0,
                        calibratedGyro (ds ! i) ! 1, calibratedGyro (ds ! i) ! 2])
                 [0..<NUM_IMUS])"

definition gpsColumns :: "GPSData \<Rightarrow> real list" where
  "gpsColumns g = [latitude g, longitude g, speed g, totalDistance g]"

definition stepColumns :: "StepData \<Rightarrow> u32 list" where
  "stepColumns st =
     [totalSteps st, normal_R_steps st, normal_L_steps st, strong_R_steps st,
      strong_L_steps st]"

text \<open>
  \<^verbatim>\<open>logData\<close>: \<open>opened\<close> tells whether \<^verbatim>\<open>SD.open\<close> returned a usable handle, \<open>ms\<close> is the
  value of \<^verbatim>\<open>millis()\<close> when the timestamp is printed.
\<close>

definition logData :: "bool \<Rightarrow> u32 \<Rightarrow> System \<Rightarrow> System" where
  "logData opened ms s =
     (if opened
      then (let s1 = (if \<not> headerWritten s
                      then s\<lparr>sdFile := sdFile s @ [Header csvHeader], headerWritten := True\<rparr>
                      else s)
            in s1\<lparr>sdFile := sdFile s1 @
                     [Row (ms div 1000) (imuColumns (imuData s1)) (gpsColumns (gpsData s1))
                        (stepColumns (stepData s1))]\<rparr>)
      else s\<lparr>serialOut := serialOut s @ [Message ''Error opening log file!'']\<rparr>)"

definition updateDisplay :: "u32 \<Rightarrow> System \<Rightarrow> System" where
  "updateDisplay ms s =
     (let totalSeconds = ms div 1000 in
      s\<lparr>oled := Some
          \<lparr>hours = ucast (totalSeconds div 3600),
           mins = ucast ((totalSeconds mod 3600) div 60),
           secs = ucast (totalSeconds mod 60),
           shownSpeed = speed (gpsData s),
           shownDist = (if totalDistance (gpsData s) < 1000
                        then Metres (totalDistance (gpsData s))
                        else Kilometres (toDouble (totalDistance (gpsData s) / 1000))),
           shownSteps = totalSteps (stepData s)\<rparr>\<rparr>)"

definition printData :: "System \<Rightarrow> System" where
  "printData s =
     s\<lparr>serialOut := serialOut s @
         [DataDump (imuColumns (imuData s)) (gpsColumns (gpsData s))
            [totalSteps (stepData s), normal_L_steps (stepData s), strong_L_steps (stepData s),
             normal_R_steps (stepData s), strong_R_steps (stepData s)]]\<rparr>"

text \<open>Header lines among the lines of a file.\<close>

fun isHeader :: "csv_line \<Rightarrow> bool" where
  "isHeader (Header h) = True"
| "isHeader (Row ts imu gps steps) = False"

definition headersIn :: "csv_line list \<Rightarrow> nat" where
  "headersIn ls = length (filter isHeader ls)"

text \<open>What has been appended to the file since power-on, when it then held \<open>old\<close>.\<close>

definition appended :: "csv_line list \<Rightarrow> System \<Rightarrow> csv_line list" where
  "appended old s = drop (length old) (sdFile s)"

section \<open>The scheduler\<close>

definition GPS_UPDATE_INTERVAL :: u32 where
  "GPS_UPDATE_INTERVAL = 1000"

definition SENSOR_UPDATE_INTERVAL :: u32 where
  "SENSOR_UPDATE_INTERVAL = 100"

definition PIEZO_UPDATE_INTERVAL :: u32 where
  "PIEZO_UPDATE_INTERVAL = 20"

text \<open>
  What the outside world delivers during one pass of \<^verbatim>\<open>loop\<close>: the clock value read at
  its start, and what each task would read if it ran in this pass.
\<close>

record LoopInput =
  currentTime :: u32
  gpsBytes :: "GpsByte list"
  imuEvents :: "nat \<Rightarrow> ImuEvent option"
  piezoMillis :: u32
  leftValue :: int
  rightValue :: int
  sdOpened :: bool
  logMillis :: u32
  displayMillis :: u32

definition gpsUpdateTask :: "distance_eval \<Rightarrow> LoopInput \<Rightarrow> System \<Rightarrow> System" where
  "gpsUpdateTask calc i s =
     (if currentTime i - lastGpsUpdate s \<ge> GPS_UPDATE_INTERVAL
      then s\<lparr>gpsData := updateGPS calc (gpsBytes i) (gpsData s),
             tasksRun := tasksRun s @ [GpsTask],
             lastGpsUpdate := currentTime i\<rparr>
      else s)"

definition imuSamplingTask :: "LoopInput \<Rightarrow> System \<Rightarrow> System" where
  "imuSamplingTask i s =
     (if currentTime i - lastSensorUpdate s \<ge> SENSOR_UPDATE_INTERVAL
      then (printData (s\<lparr>imuData := readAllIMUs (imuEvents i) (imuData s)\<rparr>))
             \<lparr>tasksRun := tasksRun s @ [ImuTask], lastSensorUpdate := currentTime i\<rparr>
      else s)"

definition stepDetectionTask :: "LoopInput \<Rightarrow> System \<Rightarrow> System" where
  "stepDetectionTask i s =
     (if currentTime i - lastPiezoUpdate s \<ge> PIEZO_UPDATE_INTERVAL
      then s\<lparr>stepData := readPiezoSensors (piezoMillis i) (leftValue i) (rightValue i)
                           (stepData s),
             tasksRun := tasksRun s @ [PiezoTask],
             lastPiezoUpdate := currentTime i\<rparr>
      else s)"

definition dataLoggingTask :: "LoopInput \<Rightarrow> System \<Rightarrow> System" where
  "dataLoggingTask i s =
     (if currentTime i - lastLogTime s \<ge> 1000
      then (logData (sdOpened i) (logMillis i) s)
             \<lparr>tasksRun := tasksRun s @ [LogTask], lastLogTime := currentTime i\<rparr>
      else s)"

definition displayUpdateTask :: "LoopInput \<Rightarrow> System \<Rightarrow> System" where
  "displayUpdateTask i s =
     (if currentTime i - lastDisplayUpdate s \<ge> 1000
      then (updateDisplay (displayMillis i) s)
             \<lparr>tasksRun := tasksRun s @ [DisplayTask], lastDisplayUpdate := currentTime i\<rparr>
      else s)"

text \<open>
  One pass of \<^verbatim>\<open>loop\<close>; the closing \<^verbatim>\<open>delay(10)\<close> changes no variable. \<open>calc\<close> is the
  processor's evaluation of \<^verbatim>\<open>calculateDistance\<close>, handed on to \<^verbatim>\<open>updateGPS\<close>.
\<close>

definition loop :: "distance_eval \<Rightarrow> LoopInput \<Rightarrow> System \<Rightarrow> System" where
  "loop calc i s =
     displayUpdateTask i (dataLoggingTask i (stepDetectionTask i
       (imuSamplingTask i (gpsUpdateTask calc i s))))"

text \<open>The device runs \<^verbatim>\<open>loop\<close> again and again: one pass per input.\<close>

fun run :: "distance_eval \<Rightarrow> LoopInput list \<Rightarrow> System \<Rightarrow> System" where
  "run calc [] s = s"
| "run calc (i # rest) s = run calc rest (loop calc i s)"

text \<open>A pass at clock value \<open>t\<close> during which no sensor delivers anything.\<close>

definition idlePass :: "u32 \<Rightarrow> LoopInput" where
  "idlePass t =
     \<lparr>currentTime = t, gpsBytes = [], imuEvents = (\<lambda>_. None), piezoMillis = t,
      leftValue = 0, rightValue = 0, sdOpened = True, logMillis = t, displayMillis = t\<rparr>"

section \<open>The scheduler leaves each task's data to that task\<close>

lemma stepData_loop:
  "stepData (loop calc i s) =
     (if PIEZO_UPDATE_INTERVAL \<le> currentTime i - lastPiezoUpdate s
      then readPiezoSensors (piezoMillis i) (leftValue i) (rightValue i) (stepData s)
      else stepData s)"
  by (simp add: loop_def gpsUpdateTask_def imuSamplingTask_def stepDetectionTask_def
      dataLoggingTask_def displayUpdateTask_def printData_def logData_def updateDisplay_def
      Let_def)

lemma gpsData_loop:
  "gpsData (loop calc i s) =
     (if GPS_UPDATE_INTERVAL \<le> currentTime i - lastGpsUpdate s
      then updateGPS calc (gpsBytes i) (gpsData s)
      else gpsData s)"
  by (simp add: loop_def gpsUpdateTask_def imuSamplingTask_def stepDetectionTask_def
      dataLoggingTask_def displayUpdateTask_def printData_def logData_def updateDisplay_def
      Let_def)

section \<open>Properties of step detection\<close>

lemma classified_readPiezoSensors:
  "totalSteps s = classifiedSteps s \<Longrightarrow>
   totalSteps (readPiezoSensors t l r s) = classifiedSteps (readPiezoSensors t l r s)"
  by (simp add: readPiezoSensors_def leftFootDetection_def rightFootDetection_def
      classifiedSteps_def)

lemma classified_readPiezoSeq:
  "totalSteps s = classifiedSteps s \<Longrightarrow>
   totalSteps (readPiezoSeq ps s) = classifiedSteps (readPiezoSeq ps s)"
proof (induction ps arbitrary: s)
  case Nil
  then show ?case by simp
next
  case (Cons p ps)
  obtain t l r where p: "p = (t, l, r)" by (cases p)
  from Cons.prems have "totalSteps (readPiezoSensors t l r s)
      = classifiedSteps (readPiezoSensors t l r s)"
    by (rule classified_readPiezoSensors)
  then show ?case using Cons.IH p by simp
qed

lemma classified_loop:
  "totalSteps (stepData s) = classifiedSteps (stepData s) \<Longrightarrow>
   totalSteps (stepData (loop calc i s)) = classifiedSteps (stepData (loop calc i s))"
  by (simp add: stepData_loop classified_readPiezoSensors)

lemma classified_run:
  "totalSteps (stepData s) = classifiedSteps (stepData s) \<Longrightarrow>
   totalSteps (stepData (run calc ins s)) = classifiedSteps (stepData (run calc ins s))"
proof (induction ins arbitrary: s)
  case Nil
  then show ?case by simp
next
  case (Cons i ins)
  from Cons.prems have "totalSteps (stepData (loop calc i s)) = classifiedSteps (stepData (loop calc i s))"
    by (rule classified_loop)
  then show ?case using Cons.IH by simp
qed

lemma classified_init: "totalSteps stepData_init = classifiedSteps stepData_init"
  by (simp add: stepData_init_def classifiedSteps_def)

text \<open>
  Claim C4. The total step count equals the sum of the four classified counters (as the
  program computes that sum, in 32-bit arithmetic): every call of \<^verbatim>\<open>readPiezoSensors\<close>
  and every pass of \<^verbatim>\<open>loop\<close> preserves the equality, for any readings and clock values,
  and it holds after any sequence of calls from the all-zero counters and after any
  sequence of passes since power-on.
\<close>

theorem total_steps_is_sum:
  "(totalSteps s = classifiedSteps s \<longrightarrow>
      totalSteps (readPiezoSensors t l r s) = classifiedSteps (readPiezoSensors t l r s)) \<and>
   totalSteps (readPiezoSeq ps stepData_init) = classifiedSteps (readPiezoSeq ps stepData_init) \<and>
   (totalSteps (stepData sys) = classifiedSteps (stepData sys) \<longrightarrow>
      totalSteps (stepData (loop calc i sys)) = classifiedSteps (stepData (loop calc i sys))) \<and>
   totalSteps (stepData (run calc ins (powerOn old)))
     = classifiedSteps (stepData (run calc ins (powerOn old)))"
proof (intro conjI impI)
  show "totalSteps (readPiezoSeq ps stepData_init) = classifiedSteps (readPiezoSeq ps stepData_init)"
    by (rule classified_readPiezoSeq) (rule classified_init)
  have "totalSteps (stepData (powerOn old)) = classifiedSteps (stepData (powerOn old))"
    by (simp add: powerOn_def classified_init)
  then show "totalSteps (stepData (run calc ins (powerOn old)))
     = classifiedSteps (stepData (run calc ins (powerOn old)))"
    by (rule classified_run)
qed (simp_all add: classified_readPiezoSensors classified_loop)

theorem total_steps_is_sum_witness:
  "totalSteps stepData_init = classifiedSteps stepData_init \<and>
   totalSteps (readPiezoSensors 1000 650 100 stepData_init) = 2 \<and>
   classifiedSteps (readPiezoSensors 1000 650 100 stepData_init) = 2 \<and>
   totalSteps (stepData (powerOn [])) = classifiedSteps (stepData (powerOn [])) \<and>
   totalSteps (stepData (loop exactDistance (idlePass 1000) (powerOn [])))
     = classifiedSteps (stepData (loop exactDistance (idlePass 1000) (powerOn [])))"
proof -
  have h1: "totalSteps stepData_init = classifiedSteps stepData_init"
    by (simp add: stepData_init_def classifiedSteps_def)
  have h2: "totalSteps (stepData (powerOn [])) = classifiedSteps (stepData (powerOn []))"
    by (simp add: powerOn_def stepData_init_def classifiedSteps_def)
  have v: "totalSteps (readPiezoSensors 1000 650 100 stepData_init) = 2"
    by (simp add: readPiezoSensors_def leftFootDetection_def rightFootDetection_def
        stepData_init_def DEBOUNCE_TIME_def)
  from total_steps_is_sum [where s = stepData_init and t = 1000 and l = 650 and r = 100
      and sys = "powerOn []" and calc = exactDistance and i = "idlePass 1000"]
    h1 h2 v
  show ?thesis by simp
qed

lemma left_accept:
  "600 < l \<Longrightarrow> DEBOUNCE_TIME < t - lastLeftStep s \<Longrightarrow>
   leftAccepted (readPiezoSensors t l r s) = leftAccepted s + 1 \<and>
   lastLeftStep (readPiezoSensors t l r s) = t"
  by (simp add: readPiezoSensors_def leftFootDetection_def rightFootDetection_def
      leftAccepted_def)

lemma left_reject:
  "\<not> (600 < l \<and> DEBOUNCE_TIME < t - lastLeftStep s) \<Longrightarrow>
   leftAccepted (readPiezoSensors t l r s) = leftAccepted s \<and>
   lastLeftStep (readPiezoSensors t l r s) = lastLeftStep s"
  by (auto simp add: readPiezoSensors_def leftFootDetection_def rightFootDetection_def
      leftAccepted_def)

lemma right_accept:
  "80 < r \<Longrightarrow> DEBOUNCE_TIME < t - lastRightStep s \<Longrightarrow>
   rightAccepted (readPiezoSensors t l r s) = rightAccepted s + 1 \<and>
   lastRightStep (readPiezoSensors t l r s) = t"
  by (simp add: readPiezoSensors_def leftFootDetection_def rightFootDetection_def
      rightAccepted_def)

lemma right_reject:
  "\<not> (80 < r \<and> DEBOUNCE_TIME < t - lastRightStep s) \<Longrightarrow>
   rightAccepted (readPiezoSensors t l r s) = rightAccepted s \<and>
   lastRightStep (readPiezoSensors t l r s) = lastRightStep s"
  by (auto simp add: readPiezoSensors_def leftFootDetection_def rightFootDetection_def
      rightAccepted_def)

text \<open>Inside the debounce interval of the last accepted step nothing is accepted.\<close>

lemma left_quiet:
  "\<forall>p\<in>set ps. fst p - lastLeftStep s \<le> DEBOUNCE_TIME \<Longrightarrow>
   leftAccepted (readPiezoSeq ps s) = leftAccepted s \<and>
   lastLeftStep (readPiezoSeq ps s) = lastLeftStep s"
proof (induction ps arbitrary: s)
  case Nil
  then show ?case by simp
next
  case (Cons p ps)
  obtain t l r where p: "p = (t, l, r)" by (cases p)
  from Cons.prems p have "t - lastLeftStep s \<le> DEBOUNCE_TIME" by simp
  then have "\<not> (600 < l \<and> DEBOUNCE_TIME < t - lastLeftStep s)" by (simp add: not_less)
  then have st: "leftAccepted (readPiezoSensors t l r s) = leftAccepted s \<and>
      lastLeftStep (readPiezoSensors t l r s) = lastLeftStep s"
    by (rule left_reject)
  with Cons.prems
  have "\<forall>q\<in>set ps. fst q - lastLeftStep (readPiezoSensors t l r s) \<le> DEBOUNCE_TIME"
    by simp
  from Cons.IH [OF this] st p show ?case by simp
qed

lemma right_quiet:
  "\<forall>p\<in>set ps. fst p - lastRightStep s \<le> DEBOUNCE_TIME \<Longrightarrow>
   rightAccepted (readPiezoSeq ps s) = rightAccepted s \<and>
   lastRightStep (readPiezoSeq ps s) = lastRightStep s"
proof (induction ps arbitrary: s)
  case Nil
  then show ?case by simp
next
  case (Cons p ps)
  obtain t l r where p: "p = (t, l, r)" by (cases p)
  from Cons.prems p have "t - lastRightStep s \<le> DEBOUNCE_TIME" by simp
  then have "\<not> (80 < r \<and> DEBOUNCE_TIME < t - lastRightStep s)" by (simp add: not_less)
  then have st: "rightAccepted (readPiezoSensors t l r s) = rightAccepted s \<and>
      lastRightStep (readPiezoSensors t l r s) = lastRightStep s"
    by (rule right_reject)
  with Cons.prems
  have "\<forall>q\<in>set ps. fst q - lastRightStep (readPiezoSensors t l r s) \<le> DEBOUNCE_TIME"
    by simp
  from Cons.IH [OF this] st p show ?case by simp
qed

lemma left_at_most_one:
  "closeTimes (map fst ps) \<Longrightarrow>
   leftAccepted (readPiezoSeq ps s) = leftAccepted s \<or>
   leftAccepted (readPiezoSeq ps s) = leftAccepted s + 1"
proof (induction ps arbitrary: s)
  case Nil
  then show ?case by simp
next
  case (Cons p ps)
  obtain t l r where p: "p = (t, l, r)" by (cases p)
  show ?case
  proof (cases "600 < l \<and> DEBOUNCE_TIME < t - lastLeftStep s")
    case True
    then have st: "leftAccepted (readPiezoSensors t l r s) = leftAccepted s + 1 \<and>
        lastLeftStep (readPiezoSensors t l r s) = t"
      by (simp add: left_accept)
    from Cons.prems p have "\<forall>q\<in>set ps. fst q - t \<le> DEBOUNCE_TIME" by simp
    with st
    have "\<forall>q\<in>set ps. fst q - lastLeftStep (readPiezoSensors t l r s) \<le> DEBOUNCE_TIME"
      by simp
    from left_quiet [OF this] st p show ?thesis by simp
  next
    case False
    then have st: "leftAccepted (readPiezoSensors t l r s) = leftAccepted s"
      using left_reject by blast
    from Cons.prems have "closeTimes (map fst ps)" by simp
    from Cons.IH [OF this, of "readPiezoSensors t l r s"] st p show ?thesis by simp
  qed
qed

lemma right_at_most_one:
  "closeTimes (map fst ps) \<Longrightarrow>
   rightAccepted (readPiezoSeq ps s) = rightAccepted s \<or>
   rightAccepted (readPiezoSeq ps s) = rightAccepted s + 1"
proof (induction ps arbitrary: s)
  case Nil
  then show ?case by simp
next
  case (Cons p ps)
  obtain t l r where p: "p = (t, l, r)" by (cases p)
  show ?case
  proof (cases "80 < r \<and> DEBOUNCE_TIME < t - lastRightStep s")
    case True
    then have st: "rightAccepted (readPiezoSensors t l r s) = rightAccepted s + 1 \<and>
        lastRightStep (readPiezoSensors t l r s) = t"
      by (simp add: right_accept)
    from Cons.prems p have "\<forall>q\<in>set ps. fst q - t \<le> DEBOUNCE_TIME" by simp
    with st
    have "\<forall>q\<in>set ps. fst q - lastRightStep (readPiezoSensors t l r s) \<le> DEBOUNCE_TIME"
      by simp
    from right_quiet [OF this] st p show ?thesis by simp
  next
    case False
    then have st: "rightAccepted (readPiezoSensors t l r s) = rightAccepted s"
      using right_reject by blast
    from Cons.prems have "closeTimes (map fst ps)" by simp
    from Cons.IH [OF this, of "readPiezoSensors t l r s"] st p show ?thesis by simp
  qed
qed

text \<open>When the first of a group of close samplings is accepted, it is the only one.\<close>

lemma left_first_only:
  assumes "closeTimes (t # map fst ps)" and "600 < l" and "DEBOUNCE_TIME < t - lastLeftStep s"
  shows "leftAccepted (readPiezoSeq ((t, l, r) # ps) s) = leftAccepted s + 1"
proof -
  from assms(2,3) have st: "leftAccepted (readPiezoSensors t l r s) = leftAccepted s + 1 \<and>
      lastLeftStep (readPiezoSensors t l r s) = t"
    by (rule left_accept)
  from assms(1) st
  have "\<forall>q\<in>set ps. fst q - lastLeftStep (readPiezoSensors t l r s) \<le> DEBOUNCE_TIME"
    by simp
  from left_quiet [OF this] st show ?thesis by simp
qed

lemma right_first_only:
  assumes "closeTimes (t # map fst ps)" and "80 < r" and "DEBOUNCE_TIME < t - lastRightStep s"
  shows "rightAccepted (readPiezoSeq ((t, l, r) # ps) s) = rightAccepted s + 1"
proof -
  from assms(2,3) have st: "rightAccepted (readPiezoSensors t l r s) = rightAccepted s + 1 \<and>
      lastRightStep (readPiezoSensors t l r s) = t"
    by (rule right_accept)
  from assms(1) st
  have "\<forall>q\<in>set ps. fst q - lastRightStep (readPiezoSensors t l r s) \<le> DEBOUNCE_TIME"
    by simp
  from right_quiet [OF this] st show ?thesis by simp
qed

text \<open>
  Claim C5, as amended. On either channel a pulse above the detect threshold (600 left,
  80 right) is accepted exactly when strictly more than 200 ms have passed since that
  channel's last accepted step, the difference taken in 32-bit arithmetic: it is
  accepted (counted once, its time recorded) when more than 200 ms have passed, and
  changes nothing on its channel when at most 200 ms have passed. Hence of any
  samplings whose clock values lie within 200 ms of one another at most one is accepted
  per channel, and exactly one when the first of them is accepted.
\<close>

theorem debounce_strictly_more_than_200:
  "(600 < l \<and> 200 < t - lastLeftStep s \<longrightarrow>
      leftAccepted (readPiezoSensors t l r s) = leftAccepted s + 1 \<and>
      lastLeftStep (readPiezoSensors t l r s) = t) \<and>
   (600 < l \<and> t - lastLeftStep s \<le> 200 \<longrightarrow>
      leftAccepted (readPiezoSensors t l r s) = leftAccepted s \<and>
      lastLeftStep (readPiezoSensors t l r s) = lastLeftStep s) \<and>
   (80 < r \<and> 200 < t - lastRightStep s \<longrightarrow>
      rightAccepted (readPiezoSensors t l r s) = rightAccepted s + 1 \<and>
      lastRightStep (readPiezoSensors t l r s) = t) \<and>
   (80 < r \<and> t - lastRightStep s \<le> 200 \<longrightarrow>
      rightAccepted (readPiezoSensors t l r s) = rightAccepted s \<and>
      lastRightStep (readPiezoSensors t l r s) = lastRightStep s) \<and>
   (closeTimes (map fst ps) \<longrightarrow>
      (leftAccepted (readPiezoSeq ps s) = leftAccepted s \<or>
       leftAccepted (readPiezoSeq ps s) = leftAccepted s + 1) \<and>
      (rightAccepted (readPiezoSeq ps s) = rightAccepted s \<or>
       rightAccepted (readPiezoSeq ps s) = rightAccepted s + 1)) \<and>
   (closeTimes (t # map fst ps) \<and> 600 < l \<and> 200 < t - lastLeftStep s \<longrightarrow>
      leftAccepted (readPiezoSeq ((t, l, r) # ps) s) = leftAccepted s + 1) \<and>
   (closeTimes (t # map fst ps) \<and> 80 < r \<and> 200 < t - lastRightStep s \<longrightarrow>
      rightAccepted (readPiezoSeq ((t, l, r) # ps) s) = rightAccepted s + 1)"
proof (intro conjI impI)
  assume "600 < l \<and> 200 < t - lastLeftStep s"
  then show "leftAccepted (readPiezoSensors t l r s) = leftAccepted s + 1"
    and "lastLeftStep (readPiezoSensors t l r s) = t"
    using left_accept [of l t s r] by (simp_all add: DEBOUNCE_TIME_def)
next
  assume "600 < l \<and> t - lastLeftStep s \<le> 200"
  then have "\<not> (600 < l \<and> DEBOUNCE_TIME < t - lastLeftStep s)"
    by (simp add: DEBOUNCE_TIME_def not_less)
  then show "leftAccepted (readPiezoSensors t l r s) = leftAccepted s"
    and "lastLeftStep (readPiezoSensors t l r s) = lastLeftStep s"
    using left_reject [of l t s r] by simp_all
next
  assume "80 < r \<and> 200 < t - lastRightStep s"
  then show "rightAccepted (readPiezoSensors t l r s) = rightAccepted s + 1"
    and "lastRightStep (readPiezoSensors t l r s) = t"
    using right_accept [of r t s l] by (simp_all add: DEBOUNCE_TIME_def)
next
  assume "80 < r \<and> t - lastRightStep s \<le> 200"
  then have "\<not> (80 < r \<and> DEBOUNCE_TIME < t - lastRightStep s)"
    by (simp add: DEBOUNCE_TIME_def not_less)
  then show "rightAccepted (readPiezoSensors t l r s) = rightAccepted s"
    and "lastRightStep (readPiezoSensors t l r s) = lastRightStep s"
    using right_reject [of r t s l] by simp_all
next
  assume "closeTimes (map fst ps)"
  then show "leftAccepted (readPiezoSeq ps s) = leftAccepted s \<or>
      leftAccepted (readPiezoSeq ps s) = leftAccepted s + 1"
    and "rightAccepted (readPiezoSeq ps s) = rightAccepted s \<or>
      rightAccepted (readPiezoSeq ps s) = rightAccepted s + 1"
    by (rule left_at_most_one, rule right_at_most_one)
next
  assume "closeTimes (t # map fst ps) \<and> 600 < l \<and> 200 < t - lastLeftStep s"
  then show "leftAccepted (readPiezoSeq ((t, l, r) # ps) s) = leftAccepted s + 1"
    using left_first_only [of t ps l s r] by (simp add: DEBOUNCE_TIME_def)
next
  assume "closeTimes (t # map fst ps) \<and> 80 < r \<and> 200 < t - lastRightStep s"
  then show "rightAccepted (readPiezoSeq ((t, l, r) # ps) s) = rightAccepted s + 1"
    using right_first_only [of t ps r s l] by (simp add: DEBOUNCE_TIME_def)
qed

lemmas step_eval =
  readPiezoSensors_def leftFootDetection_def rightFootDetection_def stepData_init_def
  DEBOUNCE_TIME_def leftAccepted_def rightAccepted_def

text \<open>
  The theorem at concrete readings: a first pulse at 1000 ms is accepted on both
  channels; a second one 100 ms later is not; the two together give one step.
\<close>

theorem debounce_strictly_more_than_200_witness:
  "((600::int) < 650 \<and> (200::u32) < 1000 - lastLeftStep stepData_init) \<and>
   leftAccepted (readPiezoSensors 1000 650 100 stepData_init) = 1 \<and>
   lastLeftStep (readPiezoSensors 1000 650 100 stepData_init) = 1000 \<and>
   ((80::int) < 100 \<and> (200::u32) < 1000 - lastRightStep stepData_init) \<and>
   rightAccepted (readPiezoSensors 1000 650 100 stepData_init) = 1 \<and>
   lastRightStep (readPiezoSensors 1000 650 100 stepData_init) = 1000 \<and>
   ((600::int) < 650 \<and>
      1100 - lastLeftStep (readPiezoSensors 1000 650 100 stepData_init) \<le> (200::u32)) \<and>
   leftAccepted (readPiezoSensors 1100 650 100 (readPiezoSensors 1000 650 100 stepData_init)) = 1 \<and>
   ((80::int) < 100 \<and>
      1100 - lastRightStep (readPiezoSensors 1000 650 100 stepData_init) \<le> (200::u32)) \<and>
   rightAccepted (readPiezoSensors 1100 650 100 (readPiezoSensors 1000 650 100 stepData_init)) = 1 \<and>
   closeTimes (map fst [(1000, 650, 100), (1100::u32, 650::int, 100::int)]) \<and>
   leftAccepted (readPiezoSeq [(1000, 650, 100), (1100, 650, 100)] stepData_init) = 1 \<and>
   rightAccepted (readPiezoSeq [(1000, 650, 100), (1100, 650, 100)] stepData_init) = 1"
proof -
  let ?s0 = "stepData_init"
  let ?s1 = "readPiezoSensors 1000 650 100 stepData_init"
  have init: "lastLeftStep ?s0 = 0" "lastRightStep ?s0 = 0"
    "leftAccepted ?s0 = 0" "rightAccepted ?s0 = 0"
    by (simp_all add: stepData_init_def leftAccepted_def rightAccepted_def)
  have close: "closeTimes (map fst [(1000, 650, 100), (1100::u32, 650::int, 100::int)])"
    by (simp add: DEBOUNCE_TIME_def)
  have first: "leftAccepted ?s1 = 1 \<and> lastLeftStep ?s1 = 1000 \<and>
      rightAccepted ?s1 = 1 \<and> lastRightStep ?s1 = 1000"
    using debounce_strictly_more_than_200 [of 650 1000 ?s0 100 "[]"] init by simp
  have second: "leftAccepted (readPiezoSensors 1100 650 100 ?s1) = 1 \<and>
      rightAccepted (readPiezoSensors 1100 650 100 ?s1) = 1"
    using debounce_strictly_more_than_200 [of 650 1100 ?s1 100 "[]"] first by simp
  have both: "leftAccepted (readPiezoSeq [(1000, 650, 100), (1100, 650, 100)] ?s0) = 1 \<and>
      rightAccepted (readPiezoSeq [(1000, 650, 100), (1100, 650, 100)] ?s0) = 1"
    using debounce_strictly_more_than_200 [of 650 1000 ?s0 100 "[(1100, 650, 100)]"] init
    by (simp add: DEBOUNCE_TIME_def)
  show ?thesis using init close first second both by simp
qed

text \<open>
  The claim as stated fails at the boundary: after a left step accepted at 1000 ms, a
  pulse of 650 at 1200 ms comes when "at least 200 ms" have passed, yet it is not
  accepted. It fails too for two pulses 50 ms apart that both fall inside the debounce
  interval of that step: neither is accepted, not exactly one.
\<close>

theorem debounce_at_least_200_counterexample:
  "lastLeftStep (readPiezoSensors 1000 650 0 stepData_init) = 1000 \<and>
   leftAccepted (readPiezoSensors 1000 650 0 stepData_init) = 1 \<and>
   (200::u32) \<le> 1200 - 1000 \<and>
   leftAccepted (readPiezoSensors 1200 650 0 (readPiezoSensors 1000 650 0 stepData_init)) = 1 \<and>
   leftAccepted (readPiezoSeq [(1050, 650, 0), (1100, 650, 0)]
      (readPiezoSensors 1000 650 0 stepData_init)) = 1"
  by (simp add: step_eval)

section \<open>Evaluating the rounding functions\<close>

lemma pow2_powr: "pow2 k = 2 powr (of_int k)"
proof (cases "0 \<le> k")
  case True
  define n where "n = nat k"
  with True have k: "k = int n" by simp
  have "2 powr (real n) = (2::real) ^ n" by (simp add: powr_realpow)
  then show ?thesis using True by (simp add: pow2_def k)
next
  case False
  define n where "n = nat (- k)"
  with False have k: "k = - int n" by simp
  have "2 powr (- real n) = 1 / (2::real) ^ n"
    by (simp add: powr_minus_divide powr_realpow)
  then show ?thesis using False by (simp add: pow2_def k)
qed

lemma pow2_pos: "0 < pow2 k"
  by (simp add: pow2_powr)

lemma binaryExponent_eq:
  assumes "pow2 e \<le> \<bar>x\<bar>" and "\<bar>x\<bar> < pow2 (e + 1)"
  shows "binaryExponent x = e"
proof -
  have pos: "0 < \<bar>x\<bar>" using assms(1) pow2_pos [of e] by linarith
  have "of_int e \<le> log 2 \<bar>x\<bar>"
    using assms(1) pos by (simp add: le_log_iff pow2_powr)
  moreover have "log 2 \<bar>x\<bar> < of_int e + 1"
    using assms(2) pos by (simp add: log_less_iff pow2_powr)
  ultimately show ?thesis
    unfolding binaryExponent_def by (intro floor_unique) simp_all
qed

text \<open>A value between two neighbouring powers of two is rounded on that binade's grid.\<close>

lemma roundBinary_eval:
  assumes "pow2 e \<le> \<bar>x\<bar>" and "\<bar>x\<bar> < pow2 (e + 1)" and "emin \<le> e"
  shows "roundBinary p emin x =
     of_int (roundTiesEven (x / pow2 (e - int p + 1))) * pow2 (e - int p + 1)"
proof -
  have "x \<noteq> 0" using assms(1) pow2_pos [of e] by auto
  moreover have "binaryExponent x = e" using assms(1,2) by (rule binaryExponent_eq)
  ultimately show ?thesis using assms(3) by (simp add: roundBinary_def Let_def max_def)
qed

lemma toFloat_5: "toFloat 5 = 5"
  unfolding toFloat_def
  by (subst roundBinary_eval [where e = 2]) (simp_all add: pow2_def roundTiesEven_def)

lemma toFloat_1: "toFloat 1 = 1"
  unfolding toFloat_def
  by (subst roundBinary_eval [where e = 0]) (simp_all add: pow2_def roundTiesEven_def)











section \<open>Properties of position tracking\<close>

text \<open>On the equator the haversine formula gives the arc between the two longitudes.\<close>

lemma haversine_equator:
  assumes "0 \<le> x" "x < pi / 2"
  shows "2 * atan2 (sqrt (sin x * sin x)) (sqrt (1 - sin x * sin x)) = 2 * x"
proof -
  have s0: "0 \<le> sin x" using assms by (simp add: sin_ge_zero)
  have c0: "0 < cos x" using assms by (intro cos_gt_zero_pi) simp_all
  have "1 - sin x * sin x = cos x * cos x"
    using sin_cos_squared_add [of x] by (simp add: power2_eq_square algebra_simps)
  then have r2: "sqrt (1 - sin x * sin x) = cos x" using c0 by simp
  have r1: "sqrt (sin x * sin x) = sin x" using s0 by simp
  have "arctan (sin x / cos x) = x"
    using arctan_tan [of x] assms by (simp add: tan_def)
  then show ?thesis using r1 r2 c0 by (simp add: atan2_def)
qed

lemma distance_origin_east:
  "calculateDistance 0 0 0 (5 / 10000) = 6371000 * (5 / 10000) * pi / 180"
proof -
  have x: "(0::real) \<le> 5 / 10000 * (pi / 180) / 2" "5 / 10000 * (pi / 180) / 2 < pi / 2"
    using pi_gt_zero by simp_all
  show ?thesis
    using haversine_equator [OF x]
    by (simp add: calculateDistance_def DEG_TO_RAD_def Let_def)
qed

lemma pi_ge_three: "3 \<le> pi"
proof -
  have "sin (pi / 6) \<le> pi / 6" by (rule sin_x_le_x) simp
  then show ?thesis by (simp add: sin_30)
qed

lemma distance_origin_east_far: "50 < calculateDistance 0 0 0 (5 / 10000)"
  using distance_origin_east pi_ge_three by simp

lemmas gps_eval =
  gpsByteStep_def validFix_def positionUpdate_def speedUpdate_def toFloat_5 toFloat_1

text \<open>
  Claim C1, as amended. With the stored position (0,0), the state the program treats as
  "no fix yet", a valid, updated fix at (0, 0.0005 degrees) is adopted as the stored
  position at 5 km/h and at 1 km/h alike, the speed field takes the reported speed, and
  nothing is added to the cumulative distance, although the two positions are more than
  50 m apart.
\<close>

theorem origin_fix_seeds_at_any_speed:
  "updateGPS calc [validFix 0 (5 / 10000) 5]
     \<lparr>latitude = 0, longitude = 0, speed = sp, totalDistance = td\<rparr>
     = \<lparr>latitude = 0, longitude = 5 / 10000, speed = 5, totalDistance = td\<rparr> \<and>
   updateGPS calc [validFix 0 (5 / 10000) 1]
     \<lparr>latitude = 0, longitude = 0, speed = sp, totalDistance = td\<rparr>
     = \<lparr>latitude = 0, longitude = 5 / 10000, speed = 1, totalDistance = td\<rparr> \<and>
   50 < calculateDistance 0 0 0 (5 / 10000)"
  using distance_origin_east_far by (simp add: gps_eval)

text \<open>
  The claim as stated fails on both counts: at 5 km/h the computed distance is not added
  to the total, and at 1 km/h the position is adopted all the same.
\<close>

theorem origin_fix_counterexample:
  "totalDistance (updateGPS exactDistance [validFix 0 (5 / 10000) 5] gpsData_init)
     \<noteq> totalDistance gpsData_init + calculateDistance 0 0 0 (5 / 10000) \<and>
   longitude gpsData_init = 0 \<and>
   longitude (updateGPS exactDistance [validFix 0 (5 / 10000) 1] gpsData_init) = 5 / 10000"
  using distance_origin_east_far by (simp add: gps_eval gpsData_init_def)

text \<open>
  Claim C2 asks that, once a prior fix exists, a fix be adopted only if it lies more than
  50 m from the stored position and reports more than 2 km/h, and that latitude,
  longitude and total distance stay as they are otherwise. The program at an input where
  it does not do so: a first fix at (10, 0), on the prime meridian, is stored; the next
  fix, at (10, 1) and reporting 1 km/h, is then adopted, because the stored longitude is
  zero and the program takes the branch it comments "Initial position fix". This holds
  whatever the distance evaluation returns.
\<close>

theorem slow_fix_adopted_after_meridian_fix:
  "latitude (updateGPS calc [validFix 10 0 5] gpsData_init) = 10 \<and>
   longitude (updateGPS calc [validFix 10 0 5] gpsData_init) = 0 \<and>
   latitude (updateGPS calc [validFix 10 0 5, validFix 10 1 1] gpsData_init) = 10 \<and>
   longitude (updateGPS calc [validFix 10 0 5, validFix 10 1 1] gpsData_init) = 1 \<and>
   totalDistance (updateGPS calc [validFix 10 0 5, validFix 10 1 1] gpsData_init) = 0"
  by (simp add: gps_eval gpsData_init_def)

text \<open>
  Claim C3 asks that only the state with both stored coordinates zero count as "no prior
  fix". The program at an input where it does not do so: a first fix at (0, 10), on the
  equator, is stored; the stored position is then not the both-zero state, yet the next
  fix, at (1, 10) and reporting 1 km/h, is adopted as a seed, unconditionally and with
  nothing added to the total distance. This holds whatever the distance evaluation
  returns.
\<close>

theorem seed_branch_taken_after_equator_fix:
  "latitude (updateGPS calc [validFix 0 10 5] gpsData_init) = 0 \<and>
   longitude (updateGPS calc [validFix 0 10 5] gpsData_init) = 10 \<and>
   latitude (updateGPS calc [validFix 0 10 5, validFix 1 10 1] gpsData_init) = 1 \<and>
   longitude (updateGPS calc [validFix 0 10 5, validFix 1 10 1] gpsData_init) = 10 \<and>
   totalDistance (updateGPS calc [validFix 0 10 5, validFix 1 10 1] gpsData_init) = 0"
  by (simp add: gps_eval gpsData_init_def)

lemma gpsByteStep_mono: "totalDistance g \<le> totalDistance (gpsByteStep calc b g)"
  by (simp add: gpsByteStep_def positionUpdate_def speedUpdate_def Let_def
      GPS_DISTANCE_THRESHOLD_def split: option.split)

lemma updateGPS_mono: "totalDistance g \<le> totalDistance (updateGPS calc bs g)"
proof (induction bs arbitrary: g)
  case Nil
  show ?case by simp
next
  case (Cons b bs)
  have "totalDistance g \<le> totalDistance (gpsByteStep calc b g)" by (rule gpsByteStep_mono)
  also have "\<dots> \<le> totalDistance (updateGPS calc bs (gpsByteStep calc b g))"
    by (rule Cons.IH)
  finally show ?case by simp
qed

lemma loop_distance_mono:
  "totalDistance (gpsData s) \<le> totalDistance (gpsData (loop calc i s))"
  by (simp add: gpsData_loop updateGPS_mono)

lemma run_distance_mono:
  "totalDistance (gpsData s) \<le> totalDistance (gpsData (run calc ins s))"
proof (induction ins arbitrary: s)
  case Nil
  show ?case by simp
next
  case (Cons i ins)
  have "totalDistance (gpsData s) \<le> totalDistance (gpsData (loop calc i s))"
    by (rule loop_distance_mono)
  also have "\<dots> \<le> totalDistance (gpsData (run calc ins (loop calc i s)))"
    by (rule Cons.IH)
  finally show ?case by simp
qed

text \<open>
  Claim C6. The cumulative distance never decreases: not over one call of \<^verbatim>\<open>updateGPS\<close>,
  whatever bytes and fixes it processes and whatever the distance evaluation returns,
  not over one pass of \<^verbatim>\<open>loop\<close>, and not over any sequence of passes.
\<close>

theorem total_distance_never_decreases:
  "totalDistance g \<le> totalDistance (updateGPS calc bs g) \<and>
   totalDistance (gpsData s) \<le> totalDistance (gpsData (loop calc i s)) \<and>
   totalDistance (gpsData s) \<le> totalDistance (gpsData (run calc ins s))"
proof (intro conjI)
  show "totalDistance g \<le> totalDistance (updateGPS calc bs g)"
    by (rule updateGPS_mono)
  show "totalDistance (gpsData s) \<le> totalDistance (gpsData (loop calc i s))"
    by (rule loop_distance_mono)
  show "totalDistance (gpsData s) \<le> totalDistance (gpsData (run calc ins s))"
    by (rule run_distance_mono)
qed

text \<open>
  Claim C10. While a stored coordinate (latitude or longitude) is exactly zero, a
  completed, valid, updated fix only overwrites the stored coordinates and, when its
  speed is valid, the speed (narrowed to a float); the total distance is left as it was.
\<close>

theorem zero_coordinate_only_reseeds:
  assumes "encode b" and "location_isValid b" and "location_isUpdated b"
    and "latitude g = 0 \<or> longitude g = 0"
  shows
    "updateGPS calc (b # bs) g =
       updateGPS calc bs (g\<lparr>latitude := location_lat b, longitude := location_lng b,
          speed := (if speed_isValid b then toFloat (speed_kmph b) else speed g)\<rparr>) \<and>
     totalDistance (updateGPS calc [b] g) = totalDistance g"
  using assms by (auto simp add: gpsByteStep_def positionUpdate_def speedUpdate_def)

theorem zero_coordinate_only_reseeds_witness:
  "encode (validFix 1 10 1) \<and> location_isValid (validFix 1 10 1) \<and>
   location_isUpdated (validFix 1 10 1) \<and>
   longitude \<lparr>latitude = 10, longitude = 0, speed = 3, totalDistance = 7\<rparr> = 0 \<and>
   updateGPS exactDistance [validFix 1 10 1]
       \<lparr>latitude = 10, longitude = 0, speed = 3, totalDistance = 7\<rparr>
     = \<lparr>latitude = 1, longitude = 10, speed = 1, totalDistance = 7\<rparr>"
proof -
  have v: "encode (validFix 1 10 1)" "location_isValid (validFix 1 10 1)"
    "location_isUpdated (validFix 1 10 1)"
    by (simp_all add: validFix_def)
  have z: "latitude \<lparr>latitude = 10, longitude = 0, speed = 3, totalDistance = 7\<rparr> = 0 \<or>
      longitude \<lparr>latitude = 10, longitude = 0, speed = 3, totalDistance = 7\<rparr> = 0"
    by simp
  show ?thesis
    using zero_coordinate_only_reseeds [OF v z, where calc = exactDistance and bs = "[]"] v
    by (simp add: validFix_def toFloat_1)
qed

section \<open>Properties of the inertial reader\<close>



lemma applyCalibration_unfold:
  "applyCalibration i d = calibrateAxis i 2 (calibrateAxis i 1 (calibrateAxis i 0 d))"
proof -
  have "[0..<3] = [0, 1, 2::nat]" by (simp add: upt_rec)
  then show ?thesis by (simp add: applyCalibration_def)
qed


lemma applyCalibration_wf: "sensor_wf d \<Longrightarrow> sensor_wf (applyCalibration i d)"
  by (simp add: sensor_wf_def applyCalibration_unfold calibrateAxis_def Let_def)









section \<open>Properties of the scheduler\<close>

lemmas task_defs = gpsUpdateTask_def imuSamplingTask_def stepDetectionTask_def
  dataLoggingTask_def displayUpdateTask_def printData_def logData_def updateDisplay_def

lemma timers_loop:
  "lastGpsUpdate (loop calc i s) =
     (if 1000 \<le> currentTime i - lastGpsUpdate s then currentTime i else lastGpsUpdate s)"
  "lastSensorUpdate (loop calc i s) =
     (if 100 \<le> currentTime i - lastSensorUpdate s then currentTime i else lastSensorUpdate s)"
  "lastPiezoUpdate (loop calc i s) =
     (if 20 \<le> currentTime i - lastPiezoUpdate s then currentTime i else lastPiezoUpdate s)"
  "lastLogTime (loop calc i s) =
     (if 1000 \<le> currentTime i - lastLogTime s then currentTime i else lastLogTime s)"
  "lastDisplayUpdate (loop calc i s) =
     (if 1000 \<le> currentTime i - lastDisplayUpdate s then currentTime i
      else lastDisplayUpdate s)"
  by (simp_all add: loop_def task_defs Let_def GPS_UPDATE_INTERVAL_def
      SENSOR_UPDATE_INTERVAL_def PIEZO_UPDATE_INTERVAL_def)

lemma tasksRun_loop:
  "tasksRun (loop calc i s) = tasksRun s @
     (if 1000 \<le> currentTime i - lastGpsUpdate s then [GpsTask] else []) @
     (if 100 \<le> currentTime i - lastSensorUpdate s then [ImuTask] else []) @
     (if 20 \<le> currentTime i - lastPiezoUpdate s then [PiezoTask] else []) @
     (if 1000 \<le> currentTime i - lastLogTime s then [LogTask] else []) @
     (if 1000 \<le> currentTime i - lastDisplayUpdate s then [DisplayTask] else [])"
  by (simp add: loop_def task_defs Let_def GPS_UPDATE_INTERVAL_def
      SENSOR_UPDATE_INTERVAL_def PIEZO_UPDATE_INTERVAL_def)







section \<open>Properties of the recorder\<close>

lemma logData_opened:
  "sdFile (logData True ms s) = sdFile s @
     (if headerWritten s then [] else [Header csvHeader]) @
     [Row (ms div 1000) (imuColumns (imuData s)) (gpsColumns (gpsData s))
        (stepColumns (stepData s))]"
  "headerWritten (logData True ms s)"
  by (simp_all add: logData_def Let_def)

lemma logData_failed:
  "logData False ms s = s\<lparr>serialOut := serialOut s @ [Message ''Error opening log file!'']\<rparr>"
  by (simp add: logData_def)

text \<open>
  The recorder's invariant: the file is what it was at power-on followed by the lines
  of this run, and these hold one header if the flag is set and none otherwise.
\<close>

lemma recorder_logData:
  assumes "sdFile s = old @ new"
    and "headersIn new = (if headerWritten s then 1 else 0)"
  shows "\<exists>new'. sdFile (logData opened ms s) = old @ new' \<and>
    headersIn new' = (if headerWritten (logData opened ms s) then 1 else 0)"
proof (cases opened)
  case True
  let ?row = "Row (ms div 1000) (imuColumns (imuData s)) (gpsColumns (gpsData s))
        (stepColumns (stepData s))"
  let ?new' = "new @ (if headerWritten s then [] else [Header csvHeader]) @ [?row]"
  have "sdFile (logData opened ms s) = old @ ?new'"
    using True assms(1) by (simp add: logData_opened)
  moreover have "headersIn ?new' = (if headerWritten (logData opened ms s) then 1 else 0)"
    using True assms(2) by (simp add: logData_opened headersIn_def)
  ultimately show ?thesis by blast
next
  case False
  then have "sdFile (logData opened ms s) = old @ new"
    and "headerWritten (logData opened ms s) = headerWritten s"
    using assms(1) by (simp_all add: logData_failed)
  with assms(2) show ?thesis by simp
qed

lemma recorder_loop_shape:
  "\<exists>s'. sdFile s' = sdFile s \<and> headerWritten s' = headerWritten s \<and>
     sdFile (loop calc i s) =
       (if 1000 \<le> currentTime i - lastLogTime s
        then sdFile (logData (sdOpened i) (logMillis i) s') else sdFile s) \<and>
     headerWritten (loop calc i s) =
       (if 1000 \<le> currentTime i - lastLogTime s
        then headerWritten (logData (sdOpened i) (logMillis i) s') else headerWritten s)"
proof -
  let ?s' = "stepDetectionTask i (imuSamplingTask i (gpsUpdateTask calc i s))"
  have a: "sdFile ?s' = sdFile s" "headerWritten ?s' = headerWritten s"
    "lastLogTime ?s' = lastLogTime s"
    by (simp_all add: gpsUpdateTask_def imuSamplingTask_def stepDetectionTask_def
        printData_def)
  have b: "sdFile (loop calc i s) = sdFile (dataLoggingTask i ?s')"
    "headerWritten (loop calc i s) = headerWritten (dataLoggingTask i ?s')"
    by (simp_all add: loop_def displayUpdateTask_def updateDisplay_def Let_def)
  have c: "sdFile (dataLoggingTask i ?s') =
       (if 1000 \<le> currentTime i - lastLogTime s
        then sdFile (logData (sdOpened i) (logMillis i) ?s') else sdFile s)"
    "headerWritten (dataLoggingTask i ?s') =
       (if 1000 \<le> currentTime i - lastLogTime s
        then headerWritten (logData (sdOpened i) (logMillis i) ?s') else headerWritten s)"
    using a by (simp_all add: dataLoggingTask_def)
  from a b c show ?thesis by metis
qed

lemma recorder_loop:
  assumes "sdFile s = old @ new"
    and "headersIn new = (if headerWritten s then 1 else 0)"
  shows "\<exists>new'. sdFile (loop calc i s) = old @ new' \<and>
    headersIn new' = (if headerWritten (loop calc i s) then 1 else 0)"
proof -
  from recorder_loop_shape [of s calc i] obtain s' where
    s': "sdFile s' = sdFile s" "headerWritten s' = headerWritten s"
    and f: "sdFile (loop calc i s) =
       (if 1000 \<le> currentTime i - lastLogTime s
        then sdFile (logData (sdOpened i) (logMillis i) s') else sdFile s)"
    and h: "headerWritten (loop calc i s) =
       (if 1000 \<le> currentTime i - lastLogTime s
        then headerWritten (logData (sdOpened i) (logMillis i) s') else headerWritten s)"
    by blast
  show ?thesis
  proof (cases "1000 \<le> currentTime i - lastLogTime s")
    case True
    from s' assms have "sdFile s' = old @ new"
      and "headersIn new = (if headerWritten s' then 1 else 0)" by simp_all
    from recorder_logData [OF this, of "sdOpened i" "logMillis i"] True f h
    show ?thesis by simp
  next
    case False
    with f h assms show ?thesis by simp
  qed
qed

lemma recorder_run:
  assumes "sdFile s = old @ new"
    and "headersIn new = (if headerWritten s then 1 else 0)"
  shows "\<exists>new'. sdFile (run calc ins s) = old @ new' \<and>
    headersIn new' = (if headerWritten (run calc ins s) then 1 else 0)"
  using assms
proof (induction ins arbitrary: s new)
  case Nil
  then show ?case by simp
next
  case (Cons i ins)
  from recorder_loop [OF Cons.prems, where i = i and calc = calc] obtain new' where
    "sdFile (loop calc i s) = old @ new'"
    "headersIn new' = (if headerWritten (loop calc i s) then 1 else 0)" by blast
  from Cons.IH [OF this] show ?case by simp
qed

lemma headerWritten_loop: "headerWritten s \<Longrightarrow> headerWritten (loop calc i s)"
  by (simp add: loop_def task_defs Let_def)

lemma headerWritten_run: "headerWritten s \<Longrightarrow> headerWritten (run calc ins s)"
proof (induction ins arbitrary: s)
  case Nil
  then show ?case by simp
next
  case (Cons i ins)
  from Cons.prems have "headerWritten (loop calc i s)" by (rule headerWritten_loop)
  then show ?case using Cons.IH by simp
qed

lemma failed_open_pass:
  assumes "\<not> sdOpened i"
  shows "sdFile (loop calc i s) = sdFile s" and "headerWritten (loop calc i s) = headerWritten s"
  using assms by (simp_all add: loop_def task_defs Let_def)

lemma display_after_log:
  assumes "1000 \<le> currentTime i - lastDisplayUpdate s"
  shows "last (tasksRun (loop calc i s)) = DisplayTask" and "oled (loop calc i s) \<noteq> None"
  using assms by (simp_all add: tasksRun_loop) (simp add: loop_def task_defs Let_def)

text \<open>
  Claim C9. Over any sequence of passes since power-on the file keeps what it held
  before, and the lines appended in this run contain the header once if the in-memory
  flag is set and not at all otherwise; the flag, once set, stays set. A call of
  \<^verbatim>\<open>logData\<close> that opens the file writes the header exactly when the flag is not yet
  set, then one data row, and sets the flag. A call whose open fails prints the error
  message and changes nothing else: no line is appended and the flag is untouched. A
  pass of \<^verbatim>\<open>loop\<close> in which the open fails ends as any other: the log timestamp is
  set, and the display task, when due, still runs and draws its frame.
\<close>

theorem header_once_and_failed_open_skipped:
  "take (length old) (sdFile (run calc ins (powerOn old))) = old \<and>
   headersIn (appended old (run calc ins (powerOn old)))
     = (if headerWritten (run calc ins (powerOn old)) then 1 else 0) \<and>
   (headerWritten s \<longrightarrow> headerWritten (run calc ins s)) \<and>
   sdFile (logData True ms s) = sdFile s @
     (if headerWritten s then [] else [Header csvHeader]) @
     [Row (ms div 1000) (imuColumns (imuData s)) (gpsColumns (gpsData s))
        (stepColumns (stepData s))] \<and>
   headerWritten (logData True ms s) \<and>
   logData False ms s
     = s\<lparr>serialOut := serialOut s @ [Message ''Error opening log file!'']\<rparr> \<and>
   (\<not> sdOpened i \<longrightarrow>
      sdFile (loop calc i s) = sdFile s \<and> headerWritten (loop calc i s) = headerWritten s \<and>
      lastLogTime (loop calc i s) =
        (if 1000 \<le> currentTime i - lastLogTime s then currentTime i else lastLogTime s)) \<and>
   (\<not> sdOpened i \<and> 1000 \<le> currentTime i - lastDisplayUpdate s \<longrightarrow>
      last (tasksRun (loop calc i s)) = DisplayTask \<and> oled (loop calc i s) \<noteq> None)"
proof -
  have "sdFile (powerOn old) = old @ []"
    and "headersIn [] = (if headerWritten (powerOn old) then 1 else 0)"
    by (simp_all add: powerOn_def headersIn_def)
  from recorder_run [OF this, where ins = ins and calc = calc] obtain new where
    new: "sdFile (run calc ins (powerOn old)) = old @ new"
    "headersIn new = (if headerWritten (run calc ins (powerOn old)) then 1 else 0)"
    by blast
  have kept: "take (length old) (sdFile (run calc ins (powerOn old))) = old"
    using new(1) by simp
  have once: "headersIn (appended old (run calc ins (powerOn old)))
     = (if headerWritten (run calc ins (powerOn old)) then 1 else 0)"
    using new by (simp add: appended_def)
  have stays: "headerWritten s \<longrightarrow> headerWritten (run calc ins s)"
    by (simp add: headerWritten_run)
  have failed: "\<not> sdOpened i \<longrightarrow>
      sdFile (loop calc i s) = sdFile s \<and> headerWritten (loop calc i s) = headerWritten s \<and>
      lastLogTime (loop calc i s) =
        (if 1000 \<le> currentTime i - lastLogTime s then currentTime i else lastLogTime s)"
    using failed_open_pass [of i calc s] timers_loop(4) [of calc i s] by blast
  have goes_on: "\<not> sdOpened i \<and> 1000 \<le> currentTime i - lastDisplayUpdate s \<longrightarrow>
      last (tasksRun (loop calc i s)) = DisplayTask \<and> oled (loop calc i s) \<noteq> None"
    using display_after_log [of i s calc] by blast
  from kept once stays logData_opened [of ms s] logData_failed [of ms s] failed goes_on
  show ?thesis by blast
qed

text \<open>
  The theorem on a concrete run from an empty card: a pass at 1000 ms whose open fails
  appends nothing and still refreshes the display; after passes at 1000 ms and 2000 ms
  that open the file, the run has appended exactly one header.
\<close>

theorem header_once_and_failed_open_skipped_witness:
  "\<not> sdOpened ((idlePass 1000)\<lparr>sdOpened := False\<rparr>) \<and>
   (1000::u32) \<le> currentTime ((idlePass 1000)\<lparr>sdOpened := False\<rparr>)
      - lastDisplayUpdate (powerOn []) \<and>
   sdFile (loop exactDistance ((idlePass 1000)\<lparr>sdOpened := False\<rparr>) (powerOn [])) = [] \<and>
   \<not> headerWritten (loop exactDistance ((idlePass 1000)\<lparr>sdOpened := False\<rparr>) (powerOn [])) \<and>
   lastLogTime (loop exactDistance ((idlePass 1000)\<lparr>sdOpened := False\<rparr>) (powerOn [])) = 1000 \<and>
   last (tasksRun (loop exactDistance ((idlePass 1000)\<lparr>sdOpened := False\<rparr>) (powerOn []))) = DisplayTask \<and>
   headerWritten (loop exactDistance (idlePass 1000) (powerOn [])) \<and>
   headerWritten (run exactDistance [idlePass 2000] (loop exactDistance (idlePass 1000) (powerOn []))) \<and>
   headersIn (appended [] (run exactDistance [idlePass 1000, idlePass 2000] (powerOn []))) = 1"
proof -
  let ?bad = "(idlePass 1000)\<lparr>sdOpened := False\<rparr>"
  have h1: "\<not> sdOpened ?bad" by simp
  have h2: "(1000::u32) \<le> currentTime ?bad - lastDisplayUpdate (powerOn [])"
    by (simp add: idlePass_def powerOn_def)
  have h3: "(1000::u32) \<le> currentTime ?bad - lastLogTime (powerOn [])"
    by (simp add: idlePass_def powerOn_def)
  have init: "sdFile (powerOn []) = []" "\<not> headerWritten (powerOn [])"
    by (simp_all add: powerOn_def)
  have ct: "currentTime ?bad = 1000" by (simp add: idlePass_def)
  have first: "headerWritten (loop exactDistance (idlePass 1000) (powerOn []))"
    by (simp add: loop_def task_defs Let_def idlePass_def powerOn_def)
  have bad: "sdFile (loop exactDistance ?bad (powerOn [])) = [] \<and>
      \<not> headerWritten (loop exactDistance ?bad (powerOn [])) \<and>
      lastLogTime (loop exactDistance ?bad (powerOn [])) = 1000 \<and>
      last (tasksRun (loop exactDistance ?bad (powerOn []))) = DisplayTask"
    using header_once_and_failed_open_skipped [of "[]" exactDistance "[]" "powerOn []" 0 ?bad]
      h1 h2 h3 init ct
    by simp
  have later: "headerWritten (run exactDistance [idlePass 2000] (loop exactDistance (idlePass 1000) (powerOn [])))"
    using header_once_and_failed_open_skipped
      [of "[]" exactDistance "[idlePass 2000]" "loop exactDistance (idlePass 1000) (powerOn [])"
        0 ?bad] first
    by blast
  have once: "headersIn (appended [] (run exactDistance [idlePass 1000, idlePass 2000] (powerOn []))) = 1"
    using header_once_and_failed_open_skipped
      [of "[]" exactDistance "[idlePass 1000, idlePass 2000]" "powerOn []" 0 ?bad] later
    by simp
  show ?thesis using h1 h2 bad first later once by blast
qed

end
